theory Spec2Isabelle
  imports Main "HOL-Library.Sublist"
begin

section \<open>Strings of the source\<close>

text \<open>
  A Python \<open>str\<close> is modelled as a \<open>string\<close> holding its UTF-8 bytes. The module only
  compares strings for equality, concatenates them and strips the ASCII character \<open>/\<close>
  from the right; all three agree on code points and on UTF-8 bytes. The Chinese
  literals of the source are named constants, given byte by byte.
\<close>

abbreviation sq :: string where
  "sq \<equiv> [CHR 0x27]"

text \<open>U+8FC7 U+671F U+7981 U+7528, "expired, disabled" (source line 35).\<close>
definition zh_expired_disabled :: string where
  "zh_expired_disabled =
     [CHR 0xE8, CHR 0xBF, CHR 0x87, CHR 0xE6, CHR 0x9C, CHR 0x9F,
      CHR 0xE7, CHR 0xA6, CHR 0x81, CHR 0xE7, CHR 0x94, CHR 0xA8]"

text \<open>U+624B U+52A8 U+7981 U+7528, "manually disabled" (source line 41).\<close>
definition zh_manually_disabled :: string where
  "zh_manually_disabled =
     [CHR 0xE6, CHR 0x89, CHR 0x8B, CHR 0xE5, CHR 0x8A, CHR 0xA8,
      CHR 0xE7, CHR 0xA6, CHR 0x81, CHR 0xE7, CHR 0x94, CHR 0xA8]"

text \<open>U+6B63 U+5E38, "normal" (source line 71).\<close>
definition zh_normal :: string where
  "zh_normal = [CHR 0xE6, CHR 0xAD, CHR 0xA3, CHR 0xE5, CHR 0xB8, CHR 0xB8]"

text \<open>U+5373 U+5C06 U+8FC7 U+671F, "expiring soon" (source line 74).\<close>
definition zh_expiring_soon :: string where
  "zh_expiring_soon =
     [CHR 0xE5, CHR 0x8D, CHR 0xB3, CHR 0xE5, CHR 0xB0, CHR 0x86,
      CHR 0xE8, CHR 0xBF, CHR 0x87, CHR 0xE6, CHR 0x9C, CHR 0x9F]"

text \<open>U+4E0D U+53EF U+7528, "unavailable" (source line 81).\<close>
definition zh_unavailable :: string where
  "zh_unavailable =
     [CHR 0xE4, CHR 0xB8, CHR 0x8D, CHR 0xE5, CHR 0x8F, CHR 0xAF, CHR 0xE7, CHR 0x94, CHR 0xA8]"

text \<open>U+5220 U+9664, "delete" (button caption).\<close>
definition zh_delete :: string where
  "zh_delete = [CHR 0xE5, CHR 0x88, CHR 0xA0, CHR 0xE9, CHR 0x99, CHR 0xA4]"

text \<open>U+542F U+7528, "enable" (button caption).\<close>
definition zh_enable :: string where
  "zh_enable = [CHR 0xE5, CHR 0x90, CHR 0xAF, CHR 0xE7, CHR 0x94, CHR 0xA8]"

text \<open>U+7981 U+7528, "disable" (button caption).\<close>
definition zh_disable :: string where
  "zh_disable = [CHR 0xE7, CHR 0xA6, CHR 0x81, CHR 0xE7, CHR 0x94, CHR 0xA8]"

text \<open>U+8D26 U+53F7, "account" (column heading, followed by ID in the source).\<close>
definition zh_account :: string where
  "zh_account = [CHR 0xE8, CHR 0xB4, CHR 0xA6, CHR 0xE5, CHR 0x8F, CHR 0xB7]"

text \<open>U+72B6 U+6001, "status" (column heading).\<close>
definition zh_status :: string where
  "zh_status = [CHR 0xE7, CHR 0x8A, CHR 0xB6, CHR 0xE6, CHR 0x80, CHR 0x81]"

text \<open>U+8FC7 U+671F U+65F6 U+95F4, "expiry time" (column heading).\<close>
definition zh_expiry_time :: string where
  "zh_expiry_time =
     [CHR 0xE8, CHR 0xBF, CHR 0x87, CHR 0xE6, CHR 0x9C, CHR 0x9F,
      CHR 0xE6, CHR 0x97, CHR 0xB6, CHR 0xE9, CHR 0x97, CHR 0xB4]"

text \<open>U+5269 U+4F59 U+65F6 U+957F, "time remaining" (column heading).\<close>
definition zh_remaining :: string where
  "zh_remaining =
     [CHR 0xE5, CHR 0x89, CHR 0xA9, CHR 0xE4, CHR 0xBD, CHR 0x99,
      CHR 0xE6, CHR 0x97, CHR 0xB6, CHR 0xE9, CHR 0x95, CHR 0xBF]"

text \<open>U+7D2F U+8BA1 U+5BF9 U+8BDD, "conversations so far" (column heading).\<close>
definition zh_conversations :: string where
  "zh_conversations =
     [CHR 0xE7, CHR 0xB4, CHR 0xAF, CHR 0xE8, CHR 0xAE, CHR 0xA1,
      CHR 0xE5, CHR 0xAF, CHR 0xB9, CHR 0xE8, CHR 0xAF, CHR 0x9D]"

text \<open>U+64CD U+4F5C, "actions" (column heading).\<close>
definition zh_actions :: string where
  "zh_actions = [CHR 0xE6, CHR 0x93, CHR 0x8D, CHR 0xE4, CHR 0xBD, CHR 0x9C]"

text \<open>U+672A U+8BBE U+7F6E, "not set" (source line 182).\<close>
definition zh_not_set :: string where
  "zh_not_set =
     [CHR 0xE6, CHR 0x9C, CHR 0xAA, CHR 0xE8, CHR 0xAE, CHR 0xBE, CHR 0xE7, CHR 0xBD, CHR 0xAE]"

text \<open>U+6682 U+65E0 U+8D26 U+6237, "no accounts yet" (source line 212).\<close>
definition zh_no_accounts :: string where
  "zh_no_accounts =
     [CHR 0xE6, CHR 0x9A, CHR 0x82, CHR 0xE6, CHR 0x97, CHR 0xA0,
      CHR 0xE8, CHR 0xB4, CHR 0xA6, CHR 0xE6, CHR 0x88, CHR 0xB7]"

text \<open>U+1F512, the padlock sign.\<close>
definition emoji_lock :: string where
  "emoji_lock =
     [CHR 0xF0, CHR 0x9F, CHR 0x94, CHR 0x92]"

text \<open>U+26A0 U+FE0F, the warning sign.\<close>
definition emoji_warning :: string where
  "emoji_warning =
     [CHR 0xE2, CHR 0x9A, CHR 0xA0, CHR 0xEF, CHR 0xB8, CHR 0x8F]"

text \<open>U+1F6A8, the revolving light sign.\<close>
definition emoji_siren :: string where
  "emoji_siren =
     [CHR 0xF0, CHR 0x9F, CHR 0x9A, CHR 0xA8]"

text \<open>U+5B89 U+5168 U+6A21 U+5F0F U+5DF2 U+542F U+7528, "secure mode is on".\<close>
definition zh_secure_mode_on :: string where
  "zh_secure_mode_on =
     [CHR 0xE5, CHR 0xAE, CHR 0x89, CHR 0xE5, CHR 0x85, CHR 0xA8,
      CHR 0xE6, CHR 0xA8, CHR 0xA1, CHR 0xE5, CHR 0xBC, CHR 0x8F,
      CHR 0xE5, CHR 0xB7, CHR 0xB2, CHR 0xE5, CHR 0x90, CHR 0xAF,
      CHR 0xE7, CHR 0x94, CHR 0xA8]"

text \<open>U+7AEF U+70B9 U+9700 U+8981 U+643A U+5E26, "the endpoint must be given".\<close>
definition zh_endpoint_requires :: string where
  "zh_endpoint_requires =
     [CHR 0xE7, CHR 0xAB, CHR 0xAF, CHR 0xE7, CHR 0x82, CHR 0xB9,
      CHR 0xE9, CHR 0x9C, CHR 0x80, CHR 0xE8, CHR 0xA6, CHR 0x81,
      CHR 0xE6, CHR 0x90, CHR 0xBA, CHR 0xE5, CHR 0xB8, CHR 0xA6]"

text \<open>U+5BC6 U+94A5 U+624D U+80FD U+8BBF U+95EE U+3002, "key to be accessed.".\<close>
definition zh_key_to_access :: string where
  "zh_key_to_access =
     [CHR 0xE5, CHR 0xAF, CHR 0x86, CHR 0xE9, CHR 0x92, CHR 0xA5,
      CHR 0xE6, CHR 0x89, CHR 0x8D, CHR 0xE8, CHR 0x83, CHR 0xBD,
      CHR 0xE8, CHR 0xAE, CHR 0xBF, CHR 0xE9, CHR 0x97, CHR 0xAE,
      CHR 0xE3, CHR 0x80, CHR 0x82]"

text \<open>U+5BC6 U+94A5 U+672A U+8BBE U+7F6E, "key not set".\<close>
definition zh_key_not_set :: string where
  "zh_key_not_set =
     [CHR 0xE5, CHR 0xAF, CHR 0x86, CHR 0xE9, CHR 0x92, CHR 0xA5,
      CHR 0xE6, CHR 0x9C, CHR 0xAA, CHR 0xE8, CHR 0xAE, CHR 0xBE,
      CHR 0xE7, CHR 0xBD, CHR 0xAE]"

text \<open>U+7AEF U+70B9 U+5F53 U+524D U+5141 U+8BB8 U+516C U+5F00 U+8BBF U+95EE
  U+3002 U+5EFA U+8BAE U+5728, "the endpoint is open to the public for now. It is advised, in".\<close>
definition zh_endpoint_public :: string where
  "zh_endpoint_public =
     [CHR 0xE7, CHR 0xAB, CHR 0xAF, CHR 0xE7, CHR 0x82, CHR 0xB9,
      CHR 0xE5, CHR 0xBD, CHR 0x93, CHR 0xE5, CHR 0x89, CHR 0x8D,
      CHR 0xE5, CHR 0x85, CHR 0x81, CHR 0xE8, CHR 0xAE, CHR 0xB8,
      CHR 0xE5, CHR 0x85, CHR 0xAC, CHR 0xE5, CHR 0xBC, CHR 0x80,
      CHR 0xE8, CHR 0xAE, CHR 0xBF, CHR 0xE9, CHR 0x97, CHR 0xAE,
      CHR 0xE3, CHR 0x80, CHR 0x82, CHR 0xE5, CHR 0xBB, CHR 0xBA,
      CHR 0xE8, CHR 0xAE, CHR 0xAE, CHR 0xE5, CHR 0x9C, CHR 0xA8]"

text \<open>U+6587 U+4EF6 U+4E2D U+914D U+7F6E, "file, to set".\<close>
definition zh_file_configure :: string where
  "zh_file_configure =
     [CHR 0xE6, CHR 0x96, CHR 0x87, CHR 0xE4, CHR 0xBB, CHR 0xB6,
      CHR 0xE4, CHR 0xB8, CHR 0xAD, CHR 0xE9, CHR 0x85, CHR 0x8D,
      CHR 0xE7, CHR 0xBD, CHR 0xAE]"

text \<open>U+73AF U+5883 U+53D8 U+91CF U+4EE5 U+63D0 U+5347 U+5B89 U+5168 U+6027
  U+3002, "environment variable for better security.".\<close>
definition zh_env_for_security :: string where
  "zh_env_for_security =
     [CHR 0xE7, CHR 0x8E, CHR 0xAF, CHR 0xE5, CHR 0xA2, CHR 0x83,
      CHR 0xE5, CHR 0x8F, CHR 0x98, CHR 0xE9, CHR 0x87, CHR 0x8F,
      CHR 0xE4, CHR 0xBB, CHR 0xA5, CHR 0xE6, CHR 0x8F, CHR 0x90,
      CHR 0xE5, CHR 0x8D, CHR 0x87, CHR 0xE5, CHR 0xAE, CHR 0x89,
      CHR 0xE5, CHR 0x85, CHR 0xA8, CHR 0xE6, CHR 0x80, CHR 0xA7,
      CHR 0xE3, CHR 0x80, CHR 0x82]"

text \<open>U+68C0 U+6D4B U+5230, "found".\<close>
definition zh_detected :: string where
  "zh_detected =
     [CHR 0xE6, CHR 0xA3, CHR 0x80, CHR 0xE6, CHR 0xB5, CHR 0x8B,
      CHR 0xE5, CHR 0x88, CHR 0xB0]"

text \<open>U+6761 U+9519 U+8BEF U+65E5 U+5FD7, "error log entries".\<close>
definition zh_error_logs :: string where
  "zh_error_logs =
     [CHR 0xE6, CHR 0x9D, CHR 0xA1, CHR 0xE9, CHR 0x94, CHR 0x99,
      CHR 0xE8, CHR 0xAF, CHR 0xAF, CHR 0xE6, CHR 0x97, CHR 0xA5,
      CHR 0xE5, CHR 0xBF, CHR 0x97]"

text \<open>U+67E5 U+770B U+8BE6 U+60C5, "see details".\<close>
definition zh_view_details :: string where
  "zh_view_details =
     [CHR 0xE6, CHR 0x9F, CHR 0xA5, CHR 0xE7, CHR 0x9C, CHR 0x8B,
      CHR 0xE8, CHR 0xAF, CHR 0xA6, CHR 0xE6, CHR 0x83, CHR 0x85]"

subsection \<open>Built-ins of Python the module relies on\<close>

text \<open>\<open>s.rstrip("/")\<close>: every trailing \<open>/\<close> is removed.\<close>

definition rstrip_slash :: "string \<Rightarrow> string" where
  "rstrip_slash s = rev (dropWhile (\<lambda>c. c = CHR ''/'') (rev s))"

text \<open>
  \<open>str(n)\<close> of an integer, which is what an f-string field \<open>{n}\<close> inserts: the decimal
  digits, most significant first, after a minus sign for a negative number.
\<close>

definition digit_char :: "nat \<Rightarrow> char" where
  "digit_char d = ''0123456789'' ! d"

fun str_nat :: "nat \<Rightarrow> string" where
  "str_nat n =
     (if n < 10 then [digit_char n] else str_nat (n div 10) @ [digit_char (n mod 10)])"

definition str_int :: "int \<Rightarrow> string" where
  "str_int i = (if i < 0 then ''-'' @ str_nat (nat (- i)) else str_nat (nat i))"

section \<open>Data model\<close>

text \<open>
  The account objects belong to the account pool, outside this module, which only reads
  them. An attribute is a field; a method without arguments (\<open>get_remaining_hours()\<close>,
  \<open>is_expired()\<close>, \<open>get_cooldown_info()\<close>) is a field holding what the call returns.
  The type \<open>'h\<close> is the type of the remaining hours, which the module hands to the
  formatter unread.
\<close>

record 'h account_config =
  account_id :: string
  disabled :: bool
  expires_at :: "string option"
  get_remaining_hours :: 'h
  is_expired :: bool

record 'h account_manager =
  config :: "'h account_config"
  get_cooldown_info :: "int \<times> string"
  is_available :: bool
  conversation_count :: int

text \<open>The dictionary \<open>_get_account_status\<close> returns, one field per key.\<close>

record 'h account_status =
  status_text :: string
  status_color :: string
  dot_color :: string
  row_opacity :: string
  action_buttons :: string
  expire_display :: string
  config_obj :: "'h account_config"

section \<open>Status classification\<close>

text \<open>
  \<open>_get_account_status\<close> (source lines 23 to 98). \<open>format_account_expiration\<close> is
  imported from \<open>core.account\<close> and is a parameter here; it returns a triple whose
  middle component the function drops. Local variables that share a name with a field
  carry a prime.
\<close>

definition get_account_status ::
  "('h \<Rightarrow> string \<times> 'c \<times> string) \<Rightarrow> 'h account_manager \<Rightarrow> 'h account_status" where
  "get_account_status format_account_expiration account_manager =
    (let config_obj' = config account_manager;
         remaining_hours = get_remaining_hours config_obj'
     in case format_account_expiration remaining_hours of
       (expire_status_text, _, expire_display') \<Rightarrow>
     let is_expired' = is_expired config_obj';
         is_disabled = disabled config_obj'
     in case get_cooldown_info account_manager of
       (cooldown_seconds, cooldown_reason) \<Rightarrow>
     case
      (if is_expired' then
         (zh_expired_disabled,
          ''#9e9e9e'',
          ''#9e9e9e'',
          ''0.5'',
          ''<button onclick=\"deleteAccount('' @ sq @ account_id config_obj' @ sq @ '')\" class=\"btn-sm btn-delete\" title=\"'' @ zh_delete @ ''\">'' @ zh_delete @ ''</button>'')
       else if is_disabled then
         (zh_manually_disabled,
          ''#9e9e9e'',
          ''#9e9e9e'',
          ''0.5'',
          ''\<newline>'' @
          ''            <button onclick=\"enableAccount('' @ sq @ account_id config_obj' @ sq @ '')\" class=\"btn-sm btn-enable\" title=\"'' @ zh_enable @ ''\">'' @ zh_enable @ ''</button>\<newline>'' @
          ''            <button onclick=\"deleteAccount('' @ sq @ account_id config_obj' @ sq @ '')\" class=\"btn-sm btn-delete\" title=\"'' @ zh_delete @ ''\">'' @ zh_delete @ ''</button>\<newline>'' @
          ''        '')
       else if cooldown_seconds = -1 then
         (cooldown_reason,
          ''#f44336'',
          ''#f44336'',
          ''0.5'',
          ''\<newline>'' @
          ''            <button onclick=\"enableAccount('' @ sq @ account_id config_obj' @ sq @ '')\" class=\"btn-sm btn-enable\" title=\"'' @ zh_enable @ ''\">'' @ zh_enable @ ''</button>\<newline>'' @
          ''            <button onclick=\"deleteAccount('' @ sq @ account_id config_obj' @ sq @ '')\" class=\"btn-sm btn-delete\" title=\"'' @ zh_delete @ ''\">'' @ zh_delete @ ''</button>\<newline>'' @
          ''        '')
       else if cooldown_seconds > 0 then
         (cooldown_reason @ '' ('' @ str_int cooldown_seconds @ ''s)'',
          ''#ff9800'',
          ''#ff9800'',
          ''1'',
          ''\<newline>'' @
          ''            <button onclick=\"disableAccount('' @ sq @ account_id config_obj' @ sq @ '')\" class=\"btn-sm btn-disable\" title=\"'' @ zh_disable @ ''\">'' @ zh_disable @ ''</button>\<newline>'' @
          ''            <button onclick=\"deleteAccount('' @ sq @ account_id config_obj' @ sq @ '')\" class=\"btn-sm btn-delete\" title=\"'' @ zh_delete @ ''\">'' @ zh_delete @ ''</button>\<newline>'' @
          ''        '')
       else
         (let is_avail = is_available account_manager
          in case
            (if is_avail then
               (expire_status_text,
                (if expire_status_text = zh_normal then (''#4caf50'', ''#34c759'')
                 else if expire_status_text = zh_expiring_soon then (''#ff9800'', ''#ff9800'')
                 else (''#f44336'', ''#f44336'')))
             else
               (zh_unavailable, (''#f44336'', ''#ff3b30'')))
          of (status_text', status_color', dot_color') \<Rightarrow>
            (status_text',
             status_color',
             dot_color',
             ''1'',
             ''\<newline>'' @
             ''            <button onclick=\"disableAccount('' @ sq @ account_id config_obj' @ sq @ '')\" class=\"btn-sm btn-disable\" title=\"'' @ zh_disable @ ''\">'' @ zh_disable @ ''</button>\<newline>'' @
             ''            <button onclick=\"deleteAccount('' @ sq @ account_id config_obj' @ sq @ '')\" class=\"btn-sm btn-delete\" title=\"'' @ zh_delete @ ''\">'' @ zh_delete @ ''</button>\<newline>'' @
             ''        '')))
     of (status_text', status_color', dot_color', row_opacity', action_buttons') \<Rightarrow>
       \<lparr>status_text = status_text',
        status_color = status_color',
        dot_color = dot_color',
        row_opacity = row_opacity',
        action_buttons = action_buttons',
        expire_display = expire_display',
        config_obj = config_obj'\<rparr>)"

section \<open>The admin page\<close>

text \<open>
  The request, as far as the module reads it: \<open>headers\<close> is the lookup
  \<open>request.headers.get\<close> (\<open>None\<close> for a header that is absent) and \<open>url_scheme\<close> is
  \<open>request.url.scheme\<close>.
\<close>

record request =
  headers :: "string \<Rightarrow> string option"
  url_scheme :: string

text \<open>An f-string field holding an optional string: \<open>None\<close> is written as the word.\<close>

definition format_optional :: "string option \<Rightarrow> string" where
  "format_optional v = (case v of None \<Rightarrow> ''None'' | Some s \<Rightarrow> s)"

text \<open>
  \<open>get_base_url_from_request\<close> (source lines 10 to 20). The global
  \<open>config.basic.base_url\<close> is the first argument; the empty string is the unset value.
\<close>

definition get_base_url_from_request :: "string \<Rightarrow> request \<Rightarrow> string" where
  "get_base_url_from_request config_basic_base_url request =
    (if config_basic_base_url \<noteq> [] then rstrip_slash config_basic_base_url
     else
       let forwarded_proto =
             (case headers request ''x-forwarded-proto'' of
                Some v \<Rightarrow> v
              | None \<Rightarrow> url_scheme request);
           forwarded_host =
             (case headers request ''x-forwarded-host'' of
                Some v \<Rightarrow> Some v
              | None \<Rightarrow> headers request ''host'')
       in forwarded_proto @ ''://'' @ format_optional forwarded_host)"

text \<open>
  A log record is a dictionary from field names to strings. The scan of source lines
  112 to 116 is a loop with the counter as accumulator; \<open>log.get("level")\<close> is \<open>None\<close>
  for a record without that field, and \<open>None\<close> is not in the list of the two levels.
\<close>

type_synonym log_record = "string \<rightharpoonup> string"

fun count_error_logs :: "int \<Rightarrow> log_record list \<Rightarrow> int" where
  "count_error_logs error_count [] = error_count"
| "count_error_logs error_count (log # log_buffer) =
     count_error_logs
       (if log ''level'' \<in> set [Some ''ERROR'', Some ''CRITICAL'']
        then error_count + 1 else error_count)
       log_buffer"

text \<open>
  One pass of the loop over the accounts (source lines 166 to 196): the table row
  of one account. \<open>config_obj.expires_at or ...\<close> takes the fallback for \<open>None\<close> and for
  the empty string.
\<close>

definition account_row ::
  "('h \<Rightarrow> string \<times> 'c \<times> string) \<Rightarrow> 'h account_manager \<Rightarrow> string" where
  "account_row format_account_expiration account_manager =
    (let status = get_account_status format_account_expiration account_manager;
         config_obj' = config_obj status
     in
       ''\<newline>'' @
       ''            <tr style=\"opacity: '' @ row_opacity status @ '';\">\<newline>'' @
       ''                <td data-label=\"'' @ zh_account @ ''ID\">\<newline>'' @
       ''                    <div style=\"display: flex; align-items: center; gap: 8px;\">\<newline>'' @
       ''                        <span class=\"status-dot\" style=\"background-color: '' @ dot_color status @ '';\"></span>\<newline>'' @
       ''                        <span style=\"font-weight: 600;\">'' @ account_id config_obj' @ ''</span>\<newline>'' @
       ''                    </div>\<newline>'' @
       ''                </td>\<newline>'' @
       ''                <td data-label=\"'' @ zh_status @ ''\">\<newline>'' @
       ''                    <span style=\"color: '' @ status_color status @ ''; font-weight: 600; font-size: 12px;\">'' @ status_text status @ ''</span>\<newline>'' @
       ''                </td>\<newline>'' @
       ''                <td data-label=\"'' @ zh_expiry_time @ ''\">\<newline>'' @
       ''                    <span class=\"font-mono\" style=\"font-size: 11px; color: #6b6b6b;\">'' @ (case expires_at config_obj' of Some e \<Rightarrow> (if e \<noteq> [] then e else zh_not_set) | None \<Rightarrow> zh_not_set) @ ''</span>\<newline>'' @
       ''                </td>\<newline>'' @
       ''                <td data-label=\"'' @ zh_remaining @ ''\">\<newline>'' @
       ''                    <span style=\"color: '' @ status_color status @ ''; font-weight: 500; font-size: 12px;\">'' @ expire_display status @ ''</span>\<newline>'' @
       ''                </td>\<newline>'' @
       ''                <td data-label=\"'' @ zh_conversations @ ''\">\<newline>'' @
       ''                    <span style=\"color: #2563eb; font-weight: 600;\">'' @ str_int (conversation_count account_manager) @ ''</span>\<newline>'' @
       ''                </td>\<newline>'' @
       ''                <td data-label=\"'' @ zh_actions @ ''\">\<newline>'' @
       ''                    <div style=\"display: flex; gap: 6px;\">\<newline>'' @
       ''                        '' @ action_buttons status @ ''\<newline>'' @
       ''                    </div>\<newline>'' @
       ''                </td>\<newline>'' @
       ''            </tr>\<newline>'' @
       ''        '')"

text \<open>
  The loop itself (source lines 163 to 196). The pool \<open>multi_account_mgr.accounts\<close> is
  a dictionary read through \<open>items()\<close>: a list of pairs in the pool's order.
\<close>

fun build_accounts_rows ::
  "('h \<Rightarrow> string \<times> 'c \<times> string) \<Rightarrow> string \<Rightarrow> (string \<times> 'h account_manager) list \<Rightarrow> string" where
  "build_accounts_rows format_account_expiration accounts_rows [] = accounts_rows"
| "build_accounts_rows format_account_expiration accounts_rows ((account_id', account_manager) # rest) =
     build_accounts_rows format_account_expiration
       (accounts_rows @ account_row format_account_expiration account_manager) rest"

text \<open>The view-model, without the entries that pass an argument through unchanged.\<close>

record template_data =
  current_url :: string
  api_key_status :: string
  error_alert :: string
  api_base_url :: string
  api_base_v1 :: string
  api_endpoint :: string
  accounts_html :: string
  admin_path_segment :: string
  api_path_segment :: string

text \<open>
  \<open>prepare_admin_template_data\<close> (source lines 101 to 245). The lock around the scan
  of the log has no counterpart in a sequential model. The arguments that are only
  copied into the result (\<open>request\<close>, \<open>multi_account_mgr\<close> and the block \<open>main\<close>) are
  left out, with the parameters that feed nothing else.
\<close>

definition prepare_admin_template_data ::
  "('h \<Rightarrow> string \<times> 'c \<times> string) \<Rightarrow> string \<Rightarrow> request \<Rightarrow>
   (string \<times> 'h account_manager) list \<Rightarrow> log_record list \<Rightarrow> string \<Rightarrow> string \<Rightarrow> template_data" where
  "prepare_admin_template_data format_account_expiration config_basic_base_url request
       accounts log_buffer api_key path_prefix =
    (let current_url' = get_base_url_from_request config_basic_base_url request;
         error_count = count_error_logs 0 log_buffer;
         api_key_status' =
          (if api_key \<noteq> [] then
       ''\<newline>'' @
       ''        <div class=\"alert alert-success\">\<newline>'' @
       ''            <div class=\"alert-icon\">'' @ emoji_lock @ ''</div>\<newline>'' @
       ''            <div class=\"alert-content\">\<newline>'' @
       ''                <strong>API '' @ zh_secure_mode_on @ ''</strong>\<newline>'' @
       ''                <div class=\"alert-desc\">API '' @ zh_endpoint_requires @ '' Authorization '' @ zh_key_to_access @ ''</div>\<newline>'' @
       ''            </div>\<newline>'' @
       ''        </div>\<newline>'' @
       ''        ''
           else
       ''\<newline>'' @
       ''        <div class=\"alert alert-warning\">\<newline>'' @
       ''            <div class=\"alert-icon\">'' @ emoji_warning @ ''</div>\<newline>'' @
       ''            <div class=\"alert-content\">\<newline>'' @
       ''                <strong>API '' @ zh_key_not_set @ ''</strong>\<newline>'' @
       ''                <div class=\"alert-desc\">API '' @ zh_endpoint_public @ '' .env '' @ zh_file_configure @ '' <code>API_KEY</code> '' @ zh_env_for_security @ ''</div>\<newline>'' @
       ''            </div>\<newline>'' @
       ''        </div>\<newline>'' @
       ''        '');
         error_alert' =
          (if error_count > 0 then
       ''\<newline>'' @
       ''        <div class=\"alert alert-error\">\<newline>'' @
       ''            <div class=\"alert-icon\">'' @ emoji_siren @ ''</div>\<newline>'' @
       ''            <div class=\"alert-content\">\<newline>'' @
       ''                <strong>'' @ zh_detected @ '' '' @ str_int error_count @ '' '' @ zh_error_logs @ ''</strong>\<newline>'' @
       ''                <a href=\"/public/log/html\" class=\"alert-link\">'' @ zh_view_details @ '' &rarr;</a>\<newline>'' @
       ''            </div>\<newline>'' @
       ''        </div>\<newline>'' @
       ''        ''
           else []);
         admin_path_segment' = (if path_prefix \<noteq> [] then path_prefix else ''admin'');
         api_path_segment' = (if path_prefix \<noteq> [] then path_prefix @ ''/'' else []);
         api_base_url' =
          (if api_path_segment' \<noteq> [] then current_url' @ ''/'' @ rstrip_slash api_path_segment'
           else current_url');
         api_base_v1' = current_url' @ ''/'' @ api_path_segment' @ ''v1'';
         api_endpoint' = current_url' @ ''/'' @ api_path_segment' @ ''v1/chat/completions'';
         accounts_rows = build_accounts_rows format_account_expiration [] accounts;
         accounts_html' =
       ''\<newline>'' @
       ''        <table class=\"account-table\">\<newline>'' @
       ''            <thead>\<newline>'' @
       ''                <tr>\<newline>'' @
       ''                    <th>'' @ zh_account @ ''ID</th>\<newline>'' @
       ''                    <th>'' @ zh_status @ ''</th>\<newline>'' @
       ''                    <th>'' @ zh_expiry_time @ ''</th>\<newline>'' @
       ''                    <th>'' @ zh_remaining @ ''</th>\<newline>'' @
       ''                    <th>'' @ zh_conversations @ ''</th>\<newline>'' @
       ''                    <th style=\"text-align: center;\">'' @ zh_actions @ ''</th>\<newline>'' @
       ''                </tr>\<newline>'' @
       ''            </thead>\<newline>'' @
       ''            <tbody>\<newline>'' @
       ''                '' @ (if accounts_rows \<noteq> [] then accounts_rows else ''<tr><td colspan=\"6\" style=\"text-align: center; color: #6b6b6b; padding: 24px;\">'' @ zh_no_accounts @ ''</td></tr>'') @ ''\<newline>'' @
       ''            </tbody>\<newline>'' @
       ''        </table>\<newline>'' @
       ''    ''
     in \<lparr>current_url = current_url',
         api_key_status = api_key_status',
         error_alert = error_alert',
         api_base_url = api_base_url',
         api_base_v1 = api_base_v1',
         api_endpoint = api_endpoint',
         accounts_html = accounts_html',
         admin_path_segment = admin_path_segment',
         api_path_segment = api_path_segment'\<rparr>)"

section \<open>The specification's view of the classifier\<close>

text \<open>
  The specification names six display states and three administrative actions, and
  attaches a label, two colours, an opacity and a set of permitted actions to each
  state. The definitions of this section follow the specification's wording; the
  theorems below compare them with \<open>get_account_status\<close>.
\<close>

datatype DisplayState = Expired | ManuallyDisabled | Banned | Cooldown | Healthy | Unhealthy

datatype action = Enable | Disable | Delete

text \<open>The priority order: the first rule that matches gives the state.\<close>

definition classify_state :: "'h account_manager \<Rightarrow> DisplayState" where
  "classify_state signals =
    (if is_expired (config signals) then Expired
     else if disabled (config signals) then ManuallyDisabled
     else if fst (get_cooldown_info signals) = -1 then Banned
     else if fst (get_cooldown_info signals) > 0 then Cooldown
     else if is_available signals then Healthy
     else Unhealthy)"

text \<open>The actions the specification permits in each state.\<close>

fun permitted_actions :: "DisplayState \<Rightarrow> action list" where
  "permitted_actions Expired = [Delete]"
| "permitted_actions ManuallyDisabled = [Enable, Delete]"
| "permitted_actions Banned = [Enable, Delete]"
| "permitted_actions Cooldown = [Disable, Delete]"
| "permitted_actions Healthy = [Disable, Delete]"
| "permitted_actions Unhealthy = [Disable, Delete]"

text \<open>
  The specification leaves the markup of an action to the code. In the source every
  button has one shape: the handler is the name of the action followed by \<open>Account\<close>
  and takes the account identifier in single quotes, the class ends in the name of the
  action, and the caption is the Chinese word for it, also given as the title. A single
  button stands alone (source line 39); two buttons stand on lines of their own, indented
  by twelve spaces and followed by eight (source lines 45 to 48).
\<close>

fun handler :: "action \<Rightarrow> string" where
  "handler Enable = ''enable''"
| "handler Disable = ''disable''"
| "handler Delete = ''delete''"

fun caption :: "action \<Rightarrow> string" where
  "caption Enable = zh_enable"
| "caption Disable = zh_disable"
| "caption Delete = zh_delete"

definition action_button :: "action \<Rightarrow> string \<Rightarrow> string" where
  "action_button a aid =
     ''<button onclick=\"'' @ handler a @ ''Account('' @ sq @ aid @ sq @ '')\" class=\"btn-sm btn-'' @
     handler a @ ''\" title=\"'' @ caption a @ ''\">'' @ caption a @ ''</button>''"

fun render_actions :: "action list \<Rightarrow> string \<Rightarrow> string" where
  "render_actions [a] aid = action_button a aid"
| "render_actions acts aid =
     ''\<newline>'' @ concat (map (\<lambda>a. ''            '' @ action_button a aid @ ''\<newline>'') acts) @ ''        ''"

text \<open>
  The specification names the colours and the two opacities; their values are those of
  the source.
\<close>

abbreviation (input) neutral_gray :: string where "neutral_gray \<equiv> ''#9e9e9e''"
abbreviation (input) danger_red :: string where "danger_red \<equiv> ''#f44336''"
abbreviation (input) warning_amber :: string where "warning_amber \<equiv> ''#ff9800''"
abbreviation (input) success_green :: string where "success_green \<equiv> ''#4caf50''"
abbreviation (input) success_green_dot :: string where "success_green_dot \<equiv> ''#34c759''"
abbreviation (input) unavailable_red_dot :: string where "unavailable_red_dot \<equiv> ''#ff3b30''"
abbreviation (input) reduced_opacity :: string where "reduced_opacity \<equiv> ''0.5''"
abbreviation (input) full_opacity :: string where "full_opacity \<equiv> ''1''"

text \<open>
  The row the specification derives from a state: label, colours, opacity and permitted
  actions by state, with the expiration display and the account passed along.
\<close>

definition view_row ::
  "('h \<Rightarrow> string \<times> 'c \<times> string) \<Rightarrow> DisplayState \<Rightarrow> 'h account_manager \<Rightarrow> 'h account_status" where
  "view_row formatter st signals =
    (let expire_status_text = fst (formatter (get_remaining_hours (config signals)));
         cooldown_seconds = fst (get_cooldown_info signals);
         cooldown_reason = snd (get_cooldown_info signals)
     in
     \<lparr>status_text =
        (case st of
           Expired \<Rightarrow> zh_expired_disabled
         | ManuallyDisabled \<Rightarrow> zh_manually_disabled
         | Banned \<Rightarrow> cooldown_reason
         | Cooldown \<Rightarrow> cooldown_reason @ '' ('' @ str_int cooldown_seconds @ ''s)''
         | Healthy \<Rightarrow> expire_status_text
         | Unhealthy \<Rightarrow> zh_unavailable),
      status_color =
        (case st of
           Expired \<Rightarrow> neutral_gray
         | ManuallyDisabled \<Rightarrow> neutral_gray
         | Banned \<Rightarrow> danger_red
         | Cooldown \<Rightarrow> warning_amber
         | Healthy \<Rightarrow>
             (if expire_status_text = zh_normal then success_green
              else if expire_status_text = zh_expiring_soon then warning_amber
              else danger_red)
         | Unhealthy \<Rightarrow> danger_red),
      dot_color =
        (case st of
           Expired \<Rightarrow> neutral_gray
         | ManuallyDisabled \<Rightarrow> neutral_gray
         | Banned \<Rightarrow> danger_red
         | Cooldown \<Rightarrow> warning_amber
         | Healthy \<Rightarrow>
             (if expire_status_text = zh_normal then success_green_dot
              else if expire_status_text = zh_expiring_soon then warning_amber
              else danger_red)
         | Unhealthy \<Rightarrow> unavailable_red_dot),
      row_opacity =
        (case st of
           Expired \<Rightarrow> reduced_opacity
         | ManuallyDisabled \<Rightarrow> reduced_opacity
         | Banned \<Rightarrow> reduced_opacity
         | Cooldown \<Rightarrow> full_opacity
         | Healthy \<Rightarrow> full_opacity
         | Unhealthy \<Rightarrow> full_opacity),
      action_buttons = render_actions (permitted_actions st) (account_id (config signals)),
      expire_display = snd (snd (formatter (get_remaining_hours (config signals)))),
      config_obj = config signals\<rparr>)"

text \<open>
  The records the error count is about: those whose level is \<open>ERROR\<close> or \<open>CRITICAL\<close>.
\<close>

definition is_error_record :: "log_record \<Rightarrow> bool" where
  "is_error_record log \<longleftrightarrow> log ''level'' = Some ''ERROR'' \<or> log ''level'' = Some ''CRITICAL''"

text \<open>
  The account table around its body, and the row that stands in for an empty pool
  (source lines 199 to 215).
\<close>

definition placeholder_row :: string where
  "placeholder_row =
     ''<tr><td colspan=\"6\" style=\"text-align: center; color: #6b6b6b; padding: 24px;\">'' @ zh_no_accounts @ ''</td></tr>''"

definition accounts_table :: "string \<Rightarrow> string" where
  "accounts_table body =
       ''\<newline>'' @
       ''        <table class=\"account-table\">\<newline>'' @
       ''            <thead>\<newline>'' @
       ''                <tr>\<newline>'' @
       ''                    <th>'' @ zh_account @ ''ID</th>\<newline>'' @
       ''                    <th>'' @ zh_status @ ''</th>\<newline>'' @
       ''                    <th>'' @ zh_expiry_time @ ''</th>\<newline>'' @
       ''                    <th>'' @ zh_remaining @ ''</th>\<newline>'' @
       ''                    <th>'' @ zh_conversations @ ''</th>\<newline>'' @
       ''                    <th style=\"text-align: center;\">'' @ zh_actions @ ''</th>\<newline>'' @
       ''                </tr>\<newline>'' @
       ''            </thead>\<newline>'' @
       ''            <tbody>\<newline>'' @
       ''                '' @ body @ ''\<newline>'' @
       ''            </tbody>\<newline>'' @
       ''        </table>\<newline>'' @
       ''    ''"


section \<open>Example inputs\<close>

text \<open>
  Concrete accounts and formatters, at which the theorems with hypotheses are
  instantiated. The hours are natural numbers here.
\<close>

definition example_formatter :: "nat \<Rightarrow> string \<times> unit \<times> string" where
  "example_formatter h = (if h > 72 then zh_normal else zh_expiring_soon, (), str_nat h @ ''h'')"

definition example_critical_formatter :: "nat \<Rightarrow> string \<times> unit \<times> string" where
  "example_critical_formatter h = (''critical'', (), str_nat h @ ''h'')"

definition example_account :: "nat account_manager" where
  "example_account =
     \<lparr>config = \<lparr>account_id = ''acc-1'', disabled = False,
                 expires_at = Some ''2026-12-31 00:00:00'',
                 get_remaining_hours = 100, is_expired = False\<rparr>,
      get_cooldown_info = (0, []),
      is_available = True,
      conversation_count = 7\<rparr>"

definition example_expired_account :: "nat account_manager" where
  "example_expired_account =
     \<lparr>config = \<lparr>account_id = ''acc-2'', disabled = True,
                 expires_at = Some ''2020-01-01 00:00:00'',
                 get_remaining_hours = 0, is_expired = True\<rparr>,
      get_cooldown_info = (-1, ''banned''),
      is_available = False,
      conversation_count = 12\<rparr>"

definition example_cooldown_account :: "nat account_manager" where
  "example_cooldown_account =
     \<lparr>config = \<lparr>account_id = ''acc-3'', disabled = False,
                 expires_at = None,
                 get_remaining_hours = 100, is_expired = False\<rparr>,
      get_cooldown_info = (45, ''rate limited''),
      is_available = False,
      conversation_count = 0\<rparr>"

definition example_unavailable_account :: "nat account_manager" where
  "example_unavailable_account =
     \<lparr>config = \<lparr>account_id = ''acc-4'', disabled = False,
                 expires_at = Some [],
                 get_remaining_hours = 100, is_expired = False\<rparr>,
      get_cooldown_info = (0, []),
      is_available = False,
      conversation_count = 3\<rparr>"

definition example_request :: request where
  "example_request =
     \<lparr>headers = [''x-forwarded-proto'' \<mapsto> ''https'', ''x-forwarded-host'' \<mapsto> ''api.example.com'',
                  ''host'' \<mapsto> ''internal:8080''],
      url_scheme = ''http''\<rparr>"

definition example_direct_request :: request where
  "example_direct_request =
     \<lparr>headers = [''host'' \<mapsto> ''localhost:7860''], url_scheme = ''http''\<rparr>"

definition example_log_buffer :: "log_record list" where
  "example_log_buffer =
     map (\<lambda>l. [''level'' \<mapsto> l, ''message'' \<mapsto> ''m''])
       [''INFO'', ''ERROR'', ''WARNING'', ''CRITICAL'', ''ERROR'']"

definition example_pool :: "(string \<times> nat account_manager) list" where
  "example_pool =
     [(''acc-3'', example_cooldown_account), (''acc-1'', example_account),
      (''acc-2'', example_expired_account)]"


section \<open>Properties of the classifier\<close>

subsection \<open>Decimal rendering\<close>

lemma str_int_examples:
  "str_int 0 = ''0''" "str_int 7 = ''7''" "str_int 45 = ''45''" "str_int 3600 = ''3600''"
  "str_int (- 1) = ''-1''"
  by (simp_all add: str_int_def digit_char_def)

subsection \<open>The button markup of the source is the rendering of an action list\<close>

lemma render_delete:
  "render_actions [Delete] aid =
     ''<button onclick=\"deleteAccount('' @ sq @ aid @ sq @ '')\" class=\"btn-sm btn-delete\" title=\"'' @ zh_delete @ ''\">'' @ zh_delete @ ''</button>''"
  by (simp add: action_button_def)

lemma render_enable_delete:
  "render_actions [Enable, Delete] aid =
     ''\<newline>'' @
     ''            <button onclick=\"enableAccount('' @ sq @ aid @ sq @ '')\" class=\"btn-sm btn-enable\" title=\"'' @ zh_enable @ ''\">'' @ zh_enable @ ''</button>\<newline>'' @
     ''            <button onclick=\"deleteAccount('' @ sq @ aid @ sq @ '')\" class=\"btn-sm btn-delete\" title=\"'' @ zh_delete @ ''\">'' @ zh_delete @ ''</button>\<newline>'' @
     ''        ''"
  by (simp add: action_button_def)

lemma render_disable_delete:
  "render_actions [Disable, Delete] aid =
     ''\<newline>'' @
     ''            <button onclick=\"disableAccount('' @ sq @ aid @ sq @ '')\" class=\"btn-sm btn-disable\" title=\"'' @ zh_disable @ ''\">'' @ zh_disable @ ''</button>\<newline>'' @
     ''            <button onclick=\"deleteAccount('' @ sq @ aid @ sq @ '')\" class=\"btn-sm btn-delete\" title=\"'' @ zh_delete @ ''\">'' @ zh_delete @ ''</button>\<newline>'' @
     ''        ''"
  by (simp add: action_button_def)

lemma render_actions_block:
  "length acts \<noteq> 1 \<Longrightarrow> render_actions acts aid =
     ''\<newline>'' @ concat (map (\<lambda>a. ''            '' @ action_button a aid @ ''\<newline>'') acts) @ ''        ''"
  by (cases "(acts, aid)" rule: render_actions.cases) simp_all

text \<open>
  The rendering determines the action list, whatever the account identifier is: a
  button starts with \<open><\<close> and a block of buttons with a line break, and the name of
  the handler, which comes before the identifier, tells the three buttons apart.
\<close>

lemma action_button_starts: "\<exists>r. action_button a aid = CHR ''<'' # r"
  by (simp add: action_button_def)

lemma action_button_head_inj:
  assumes "action_button a aid @ r = action_button b aid @ r'"
  shows "a = b"
  using assms by (cases a; cases b) (simp_all add: action_button_def)

lemma action_blocks_inj:
  assumes "concat (map (\<lambda>a. ''            '' @ action_button a aid @ ''\<newline>'') as) @ ''        '' =
           concat (map (\<lambda>a. ''            '' @ action_button a aid @ ''\<newline>'') bs) @ ''        ''"
  shows "as = bs"
  using assms
proof (induction as arbitrary: bs)
  case Nil
  then show ?case by (cases bs) simp_all
next
  case (Cons a as)
  show ?case
  proof (cases bs)
    case Nil
    with Cons.prems show ?thesis by simp
  next
    case (Cons b bs')
    let ?f = "\<lambda>a. ''            '' @ action_button a aid @ ''\<newline>''"
    from Cons.prems Cons have eq:
      "action_button a aid @ (''\<newline>'' @ concat (map ?f as) @ ''        '') =
       action_button b aid @ (''\<newline>'' @ concat (map ?f bs') @ ''        '')"
      by simp
    then have ab: "a = b" by (rule action_button_head_inj)
    with eq have "concat (map ?f as) @ ''        '' = concat (map ?f bs') @ ''        ''"
      by simp
    then have "as = bs'" by (rule Cons.IH)
    with ab Cons show ?thesis by simp
  qed
qed

lemma render_actions_inj:
  assumes "render_actions as aid = render_actions bs aid"
  shows "as = bs"
proof (cases "length as = 1")
  case True
  then obtain a where a: "as = [a]" by (cases as) auto
  show ?thesis
  proof (cases "length bs = 1")
    case True
    then obtain b where b: "bs = [b]" by (cases bs) auto
    from assms a b have "action_button a aid @ [] = action_button b aid @ []" by simp
    then have "a = b" by (rule action_button_head_inj)
    with a b show ?thesis by simp
  next
    case False
    from action_button_starts[of a aid] assms a show ?thesis
      unfolding render_actions_block[OF False] by auto
  qed
next
  case False
  note na = this
  show ?thesis
  proof (cases "length bs = 1")
    case True
    then obtain b where b: "bs = [b]" by (cases bs) auto
    from action_button_starts[of b aid] assms b show ?thesis
      unfolding render_actions_block[OF na] by auto
  next
    case False
    from assms have
      "concat (map (\<lambda>a. ''            '' @ action_button a aid @ ''\<newline>'') as) @ ''        '' =
       concat (map (\<lambda>a. ''            '' @ action_button a aid @ ''\<newline>'') bs) @ ''        ''"
      unfolding render_actions_block[OF na] render_actions_block[OF False] by simp
    then show ?thesis by (rule action_blocks_inj)
  qed
qed

subsection \<open>The source computes the row of the state the priority chain selects\<close>

lemma get_account_status_view_row:
  "get_account_status fmt am = view_row fmt (classify_state am) am"
proof -
  obtain est mid ed where f: "fmt (get_remaining_hours (config am)) = (est, mid, ed)"
    by (cases "fmt (get_remaining_hours (config am))") auto
  obtain secs reason where c: "get_cooldown_info am = (secs, reason)"
    by (cases "get_cooldown_info am") auto
  show ?thesis
    unfolding get_account_status_def Let_def render_delete[symmetric]
      render_enable_delete[symmetric] render_disable_delete[symmetric]
      view_row_def classify_state_def f c prod.case fst_conv snd_conv
    by simp
qed

text \<open>
  The rows of two different states differ, for the same account. A cooldown label ends
  in a closing bracket, so it is never the "expiring soon" text, the one label under
  which a healthy row is amber too.
\<close>

lemma cooldown_label_not_expiring:
  "r @ '' ('' @ str_int n @ ''s)'' \<noteq> zh_expiring_soon"
proof
  assume "r @ '' ('' @ str_int n @ ''s)'' = zh_expiring_soon"
  then have "last (r @ '' ('' @ str_int n @ ''s)'') = last zh_expiring_soon" by simp
  then show False by (simp add: zh_expiring_soon_def)
qed

lemma view_row_state_inj:
  assumes "view_row fmt st am = view_row fmt st' am"
  shows "st = st'"
  using assms
    cooldown_label_not_expiring[of "snd (get_cooldown_info am)" "fst (get_cooldown_info am)"]
    cooldown_label_not_expiring[of "snd (get_cooldown_info am)" "fst (get_cooldown_info am)",
      symmetric]
  unfolding view_row_def Let_def
  by (cases st; cases st')
     (simp_all add: zh_expired_disabled_def zh_manually_disabled_def split: if_splits)

text \<open>
  Claim C1. For every account, \<open>get_account_status\<close> returns the row of exactly one
  display state: the row of the state selected by the priority chain expired, disabled,
  cooldown \<open>-1\<close>, cooldown positive, available, in that order; and the row it returns is
  the row of no other state. The function is total: it returns a row for every input.
\<close>

theorem classify_one_state:
  "get_account_status fmt am = view_row fmt (classify_state am) am \<and>
   (\<forall>st. get_account_status fmt am = view_row fmt st am \<longrightarrow> st = classify_state am)"
  using view_row_state_inj[of fmt _ am "classify_state am"]
  by (simp add: get_account_status_view_row)

theorem classify_one_state_witness:
  "get_account_status example_formatter example_account =
     view_row example_formatter Healthy example_account \<and>
   classify_state example_account = Healthy \<and>
   get_account_status example_formatter example_account \<noteq>
     view_row example_formatter Unhealthy example_account"
proof -
  note one = classify_one_state[of example_formatter example_account]
  have s: "classify_state example_account = Healthy"
    by (simp add: classify_state_def example_account_def)
  have "get_account_status example_formatter example_account =
     view_row example_formatter Healthy example_account"
    using one s by simp
  moreover have "get_account_status example_formatter example_account \<noteq>
     view_row example_formatter Unhealthy example_account"
  proof
    assume "get_account_status example_formatter example_account =
      view_row example_formatter Unhealthy example_account"
    with one have "Unhealthy = classify_state example_account" by blast
    with s show False by simp
  qed
  ultimately show ?thesis using s by simp
qed

text \<open>
  Claim C2. An account that is expired, disabled and banned (cooldown \<open>-1\<close>) at once
  is shown as Expired: the label of line 35, gray for the text and for the dot, the
  reduced opacity, and the delete button alone: the markup is the rendering of the list
  holding delete and of no other list of actions. Its row is neither the row of Banned
  nor the row of ManuallyDisabled.
\<close>

theorem expired_dominates:
  assumes "is_expired (config am)" and "fst (get_cooldown_info am) = -1" and "disabled (config am)"
  shows "classify_state am = Expired \<and>
    get_account_status fmt am = view_row fmt Expired am \<and>
    status_text (get_account_status fmt am) = zh_expired_disabled \<and>
    status_color (get_account_status fmt am) = ''#9e9e9e'' \<and>
    dot_color (get_account_status fmt am) = ''#9e9e9e'' \<and>
    row_opacity (get_account_status fmt am) = ''0.5'' \<and>
    action_buttons (get_account_status fmt am) = render_actions [Delete] (account_id (config am)) \<and>
    (\<forall>acts. action_buttons (get_account_status fmt am) =
        render_actions acts (account_id (config am)) \<longrightarrow> acts = [Delete]) \<and>
    get_account_status fmt am \<noteq> view_row fmt Banned am \<and>
    get_account_status fmt am \<noteq> view_row fmt ManuallyDisabled am"
proof -
  have s: "classify_state am = Expired"
    using assms by (simp add: classify_state_def)
  have r: "get_account_status fmt am = view_row fmt Expired am"
    using s get_account_status_view_row[of fmt am] by simp
  have "view_row fmt Expired am \<noteq> view_row fmt Banned am"
    "view_row fmt Expired am \<noteq> view_row fmt ManuallyDisabled am"
    using view_row_state_inj[of fmt Expired am] by auto
  moreover have "acts = [Delete]"
    if "render_actions [Delete] (account_id (config am)) =
        render_actions acts (account_id (config am))" for acts
    using render_actions_inj[OF that] by simp
  ultimately show ?thesis
    using s r by (simp add: view_row_def)
qed

theorem expired_dominates_witness:
  "classify_state example_expired_account = Expired \<and>
   status_text (get_account_status example_formatter example_expired_account) = zh_expired_disabled \<and>
   status_color (get_account_status example_formatter example_expired_account) = ''#9e9e9e'' \<and>
   row_opacity (get_account_status example_formatter example_expired_account) = ''0.5'' \<and>
   action_buttons (get_account_status example_formatter example_expired_account) =
     action_button Delete ''acc-2''"
proof -
  have h: "is_expired (config example_expired_account)"
      "fst (get_cooldown_info example_expired_account) = -1"
      "disabled (config example_expired_account)"
    by (simp_all add: example_expired_account_def)
  have i: "render_actions [Delete] (account_id (config example_expired_account)) =
      action_button Delete ''acc-2''"
    by (simp add: example_expired_account_def)
  show ?thesis
    using expired_dominates[OF h, of example_formatter] unfolding i by blast
qed

text \<open>
  Claim C3. For an account neither expired nor disabled whose cooldown has a positive
  number of seconds left, the label is the cooldown reason, then a space and an opening
  bracket, the seconds in decimal, and \<open>s)\<close>; both colours are amber, the opacity is
  full and the buttons are disable and delete, and no others. With 45 seconds and the reason
  \<open>rate limited\<close> the label is \<open>rate limited (45s)\<close>.
\<close>

theorem cooldown_label:
  assumes "\<not> is_expired (config am)" and "\<not> disabled (config am)"
    and "fst (get_cooldown_info am) > 0"
  shows "status_text (get_account_status fmt am) =
      snd (get_cooldown_info am) @ '' ('' @ str_int (fst (get_cooldown_info am)) @ ''s)'' \<and>
    status_color (get_account_status fmt am) = ''#ff9800'' \<and>
    dot_color (get_account_status fmt am) = ''#ff9800'' \<and>
    row_opacity (get_account_status fmt am) = ''1'' \<and>
    action_buttons (get_account_status fmt am) =
      render_actions [Disable, Delete] (account_id (config am)) \<and>
    (\<forall>acts. action_buttons (get_account_status fmt am) =
        render_actions acts (account_id (config am)) \<longrightarrow> acts = [Disable, Delete]) \<and>
    (get_cooldown_info am = (45, ''rate limited'') \<longrightarrow>
      status_text (get_account_status fmt am) = ''rate limited (45s)'')"
proof -
  have s: "classify_state am = Cooldown"
    using assms by (simp add: classify_state_def)
  have d: "str_int 45 = ''45''"
    by (rule str_int_examples)
  have "acts = [Disable, Delete]"
    if "render_actions [Disable, Delete] (account_id (config am)) =
        render_actions acts (account_id (config am))" for acts
    using render_actions_inj[OF that] by simp
  then show ?thesis
    unfolding get_account_status_view_row s
    by (simp add: view_row_def d)
qed

theorem cooldown_label_witness:
  "status_text (get_account_status example_formatter example_cooldown_account) =
     ''rate limited (45s)'' \<and>
   status_color (get_account_status example_formatter example_cooldown_account) = ''#ff9800'' \<and>
   dot_color (get_account_status example_formatter example_cooldown_account) = ''#ff9800'' \<and>
   row_opacity (get_account_status example_formatter example_cooldown_account) = ''1'' \<and>
   action_buttons (get_account_status example_formatter example_cooldown_account) =
     render_actions [Disable, Delete] ''acc-3''"
proof -
  have h: "\<not> is_expired (config example_cooldown_account)"
      "\<not> disabled (config example_cooldown_account)"
      "fst (get_cooldown_info example_cooldown_account) > 0"
    by (simp_all add: example_cooldown_account_def)
  have c: "get_cooldown_info example_cooldown_account = (45, ''rate limited'')"
    and i: "account_id (config example_cooldown_account) = ''acc-3''"
    by (simp_all add: example_cooldown_account_def)
  show ?thesis
    using cooldown_label[OF h, of example_formatter] c unfolding i by blast
qed

text \<open>
  Claim C4. For an account neither expired nor disabled and with cooldown 0: if it is
  available and the expiration text is "normal", the label is "normal", the text is green,
  the dot is another green, the opacity is full and the buttons are disable and delete,
  and no others; if
  it is available and the expiration text is neither "normal" nor "expiring soon", the
  label is that text and both colours are red; if it is not available, the label is
  "unavailable", the text is red and the dot is another red.
\<close>

theorem healthy_and_unhealthy_rows:
  assumes "\<not> is_expired (config am)" and "\<not> disabled (config am)"
    and "fst (get_cooldown_info am) = 0"
  shows
   "(is_available am \<and> fst (fmt (get_remaining_hours (config am))) = zh_normal \<longrightarrow>
      status_text (get_account_status fmt am) = zh_normal \<and>
      status_color (get_account_status fmt am) = ''#4caf50'' \<and>
      dot_color (get_account_status fmt am) = ''#34c759'' \<and>
      dot_color (get_account_status fmt am) \<noteq> status_color (get_account_status fmt am) \<and>
      row_opacity (get_account_status fmt am) = ''1'' \<and>
      action_buttons (get_account_status fmt am) =
        render_actions [Disable, Delete] (account_id (config am)) \<and>
      (\<forall>acts. action_buttons (get_account_status fmt am) =
          render_actions acts (account_id (config am)) \<longrightarrow> acts = [Disable, Delete])) \<and>
    (is_available am \<and> fst (fmt (get_remaining_hours (config am))) \<noteq> zh_normal \<and>
       fst (fmt (get_remaining_hours (config am))) \<noteq> zh_expiring_soon \<longrightarrow>
      status_text (get_account_status fmt am) = fst (fmt (get_remaining_hours (config am))) \<and>
      status_color (get_account_status fmt am) = ''#f44336'' \<and>
      dot_color (get_account_status fmt am) = ''#f44336'') \<and>
    (\<not> is_available am \<longrightarrow>
      status_text (get_account_status fmt am) = zh_unavailable \<and>
      status_color (get_account_status fmt am) = ''#f44336'' \<and>
      dot_color (get_account_status fmt am) = ''#ff3b30'' \<and>
      dot_color (get_account_status fmt am) \<noteq> status_color (get_account_status fmt am))"
proof -
  have s: "classify_state am = (if is_available am then Healthy else Unhealthy)"
    using assms by (simp add: classify_state_def)
  have "acts = [Disable, Delete]"
    if "render_actions [Disable, Delete] (account_id (config am)) =
        render_actions acts (account_id (config am))" for acts
    using render_actions_inj[OF that] by simp
  then show ?thesis
    unfolding get_account_status_view_row s
    by (simp add: view_row_def)
qed

theorem healthy_and_unhealthy_rows_witness:
  "status_text (get_account_status example_formatter example_account) = zh_normal \<and>
   status_color (get_account_status example_formatter example_account) = ''#4caf50'' \<and>
   dot_color (get_account_status example_formatter example_account) = ''#34c759'' \<and>
   row_opacity (get_account_status example_formatter example_account) = ''1'' \<and>
   action_buttons (get_account_status example_formatter example_account) =
     render_actions [Disable, Delete] ''acc-1'' \<and>
   status_text (get_account_status example_critical_formatter example_account) = ''critical'' \<and>
   status_color (get_account_status example_critical_formatter example_account) = ''#f44336'' \<and>
   dot_color (get_account_status example_critical_formatter example_account) = ''#f44336'' \<and>
   status_text (get_account_status example_formatter example_unavailable_account) =
     zh_unavailable \<and>
   status_color (get_account_status example_formatter example_unavailable_account) = ''#f44336'' \<and>
   dot_color (get_account_status example_formatter example_unavailable_account) = ''#ff3b30''"
proof -
  have h: "\<not> is_expired (config example_account)" "\<not> disabled (config example_account)"
      "fst (get_cooldown_info example_account) = 0"
    and a: "is_available example_account"
    and i: "account_id (config example_account) = ''acc-1''"
    by (simp_all add: example_account_def)
  have n: "fst (example_formatter (get_remaining_hours (config example_account))) = zh_normal"
    by (simp add: example_account_def example_formatter_def)
  have c: "fst (example_critical_formatter (get_remaining_hours (config example_account))) =
      ''critical''"
    by (simp add: example_critical_formatter_def)
  have cn: "''critical'' \<noteq> zh_normal" "''critical'' \<noteq> zh_expiring_soon"
    by (simp_all add: zh_normal_def zh_expiring_soon_def)
  have u: "\<not> is_expired (config example_unavailable_account)"
      "\<not> disabled (config example_unavailable_account)"
      "fst (get_cooldown_info example_unavailable_account) = 0"
    and na: "\<not> is_available example_unavailable_account"
    by (simp_all add: example_unavailable_account_def)
  have 1:
    "status_text (get_account_status example_formatter example_account) = zh_normal \<and>
     status_color (get_account_status example_formatter example_account) = ''#4caf50'' \<and>
     dot_color (get_account_status example_formatter example_account) = ''#34c759'' \<and>
     row_opacity (get_account_status example_formatter example_account) = ''1'' \<and>
     action_buttons (get_account_status example_formatter example_account) =
       render_actions [Disable, Delete] ''acc-1''"
    using healthy_and_unhealthy_rows[OF h, of example_formatter] a n unfolding i by blast
  have 2:
    "status_text (get_account_status example_critical_formatter example_account) = ''critical'' \<and>
     status_color (get_account_status example_critical_formatter example_account) = ''#f44336'' \<and>
     dot_color (get_account_status example_critical_formatter example_account) = ''#f44336''"
    using healthy_and_unhealthy_rows[OF h, of example_critical_formatter] a cn unfolding c
    by blast
  have 3:
    "status_text (get_account_status example_formatter example_unavailable_account) =
       zh_unavailable \<and>
     status_color (get_account_status example_formatter example_unavailable_account) =
       ''#f44336'' \<and>
     dot_color (get_account_status example_formatter example_unavailable_account) = ''#ff3b30''"
    using healthy_and_unhealthy_rows[OF u, of example_formatter] na by blast
  show ?thesis
    using 1 2 3 by blast
qed

subsection \<open>The delete button\<close>

lemma sublist_render_actions:
  assumes "a \<in> set acts"
  shows "sublist (action_button a aid) (render_actions acts aid)"
proof (cases "length acts = 1")
  case True
  then obtain b where "acts = [b]"
    by (cases acts) auto
  with assms show ?thesis by simp
next
  case False
  from assms obtain xs ys where acts: "acts = xs @ a # ys"
    by (auto dest: split_list)
  let ?f = "\<lambda>a. ''            '' @ action_button a aid @ ''\<newline>''"
  have "render_actions acts aid = ''\<newline>'' @ concat (map ?f acts) @ ''        ''"
    by (rule render_actions_block[OF False])
  also have "\<dots> =
      (''\<newline>'' @ concat (map ?f xs) @ ''            '') @ action_button a aid @
      (''\<newline>'' @ concat (map ?f ys) @ ''        '')"
    by (simp add: acts)
  finally have "render_actions acts aid =
      (''\<newline>'' @ concat (map ?f xs) @ ''            '') @ action_button a aid @
      (''\<newline>'' @ concat (map ?f ys) @ ''        '')" .
  then show ?thesis
    unfolding sublist_def by blast
qed

text \<open>
  Claim C10. For every account the markup of the buttons contains the delete button of
  that account: the markup is the rendering of the actions permitted in the state of the
  account, and delete is permitted in each of the six states.
\<close>

theorem delete_always_permitted:
  "sublist (action_button Delete (account_id (config am)))
     (action_buttons (get_account_status fmt am)) \<and>
   action_buttons (get_account_status fmt am) =
     render_actions (permitted_actions (classify_state am)) (account_id (config am)) \<and>
   Delete \<in> set (permitted_actions (classify_state am)) \<and>
   (\<forall>st. Delete \<in> set (permitted_actions st))"
proof -
  have all: "Delete \<in> set (permitted_actions st)" for st
    by (cases st) simp_all
  have ab: "action_buttons (view_row fmt st am) =
      render_actions (permitted_actions st) (account_id (config am))" for st
    by (simp add: view_row_def Let_def)
  show ?thesis
    unfolding get_account_status_view_row ab
    using all sublist_render_actions[OF all] by blast
qed

section \<open>Properties of the admin page\<close>

subsection \<open>The base URL\<close>

lemma rstrip_slash_decomp:
  "\<exists>k. s = rstrip_slash s @ replicate k CHR ''/''"
proof -
  let ?P = "\<lambda>c. c = CHR ''/''"
  have "takeWhile ?P (rev s) = replicate (length (takeWhile ?P (rev s))) CHR ''/''"
    by (intro replicate_eqI) (auto dest: set_takeWhileD)
  moreover have "s = rev (dropWhile ?P (rev s)) @ rev (takeWhile ?P (rev s))"
    by (metis rev_append rev_rev_ident takeWhile_dropWhile_id)
  ultimately have "s = rstrip_slash s @ replicate (length (takeWhile ?P (rev s))) CHR ''/''"
    unfolding rstrip_slash_def by (metis rev_replicate)
  then show ?thesis ..
qed

lemma rstrip_slash_last:
  "rstrip_slash s = [] \<or> last (rstrip_slash s) \<noteq> CHR ''/''"
proof (cases "dropWhile (\<lambda>c. c = CHR ''/'') (rev s) = []")
  case True
  then show ?thesis by (simp add: rstrip_slash_def)
next
  case False
  then have "hd (dropWhile (\<lambda>c. c = CHR ''/'') (rev s)) \<noteq> CHR ''/''"
    using hd_dropWhile[of "\<lambda>c. c = CHR ''/''" "rev s"] by simp
  with False show ?thesis
    by (simp add: rstrip_slash_def last_rev)
qed

lemma rstrip_slash_snoc:
  assumes "p = [] \<or> last p \<noteq> CHR ''/''"
  shows "rstrip_slash (p @ ''/'') = p"
proof (cases "p = []")
  case True
  then show ?thesis by (simp add: rstrip_slash_def)
next
  case False
  with assms have "hd (rev p) \<noteq> CHR ''/''" by (simp add: hd_rev)
  moreover from False have "rev p \<noteq> []" by simp
  ultimately have "dropWhile (\<lambda>c. c = CHR ''/'') (rev p) = rev p"
    by (cases "rev p") auto
  then show ?thesis by (simp add: rstrip_slash_def)
qed

text \<open>
  Claim C5. A configured base URL that is not empty is returned without its trailing
  slashes, and otherwise unchanged. With no configured base URL the result is the scheme,
  \<open>://\<close> and the host, where the scheme is the header \<open>x-forwarded-proto\<close> if the request
  has it and the scheme of the request's URL if not, and the host is the header
  \<open>x-forwarded-host\<close> if the request has it and the header \<open>host\<close> if not; for a
  request with neither of the two the code writes the word \<open>None\<close> as the host. The
  request of the specification's example resolves to \<open>https://api.example.com\<close>.
\<close>

theorem base_url_resolution:
  "(base \<noteq> [] \<longrightarrow>
      get_base_url_from_request base req = rstrip_slash base \<and>
      (\<exists>k. base = get_base_url_from_request base req @ replicate k CHR ''/'') \<and>
      (get_base_url_from_request base req = [] \<or>
       last (get_base_url_from_request base req) \<noteq> CHR ''/'')) \<and>
   (base = [] \<and> headers req ''x-forwarded-proto'' = Some p \<and>
      headers req ''x-forwarded-host'' = Some h \<longrightarrow>
      get_base_url_from_request base req = p @ ''://'' @ h) \<and>
   (base = [] \<and> headers req ''x-forwarded-proto'' = None \<and>
      headers req ''x-forwarded-host'' = Some h \<longrightarrow>
      get_base_url_from_request base req = url_scheme req @ ''://'' @ h) \<and>
   (base = [] \<and> headers req ''x-forwarded-proto'' = Some p \<and>
      headers req ''x-forwarded-host'' = None \<and> headers req ''host'' = Some h \<longrightarrow>
      get_base_url_from_request base req = p @ ''://'' @ h) \<and>
   (base = [] \<and> headers req ''x-forwarded-proto'' = None \<and>
      headers req ''x-forwarded-host'' = None \<and> headers req ''host'' = Some h \<longrightarrow>
      get_base_url_from_request base req = url_scheme req @ ''://'' @ h) \<and>
   (base = [] \<and> headers req ''x-forwarded-proto'' = Some p \<and>
      headers req ''x-forwarded-host'' = None \<and> headers req ''host'' = None \<longrightarrow>
      get_base_url_from_request base req = p @ ''://None'') \<and>
   (base = [] \<and> headers req ''x-forwarded-proto'' = None \<and>
      headers req ''x-forwarded-host'' = None \<and> headers req ''host'' = None \<longrightarrow>
      get_base_url_from_request base req = url_scheme req @ ''://None'') \<and>
   (base = [] \<and> url_scheme req = ''http'' \<and>
      headers req ''x-forwarded-proto'' = Some ''https'' \<and>
      headers req ''x-forwarded-host'' = Some ''api.example.com'' \<and>
      headers req ''host'' = Some ''internal:8080'' \<longrightarrow>
      get_base_url_from_request base req = ''https://api.example.com'')"
  using rstrip_slash_decomp[of base] rstrip_slash_last[of base]
  by (simp add: get_base_url_from_request_def format_optional_def)

theorem base_url_resolution_witness:
  "get_base_url_from_request ''https://gemini.example.org//'' example_request =
     ''https://gemini.example.org'' \<and>
   get_base_url_from_request [] example_request = ''https://api.example.com'' \<and>
   get_base_url_from_request [] example_direct_request = ''http://localhost:7860''"
proof -
  have a: "get_base_url_from_request ''https://gemini.example.org//'' example_request =
      rstrip_slash ''https://gemini.example.org//''"
    using base_url_resolution[of "''https://gemini.example.org//''" example_request] by simp
  have b: "get_base_url_from_request [] example_request = ''https://api.example.com''"
    using base_url_resolution[of "[]" example_request "''https''" "''api.example.com''"]
    by (simp add: example_request_def)
  have c: "get_base_url_from_request [] example_direct_request = ''http://localhost:7860''"
    using base_url_resolution[of "[]" example_direct_request _ "''localhost:7860''"]
    by (simp add: example_direct_request_def)
  show ?thesis
    using a b c by (simp add: rstrip_slash_def)
qed

subsection \<open>The error count\<close>

lemma count_error_logs_filter:
  "count_error_logs n buf = n + int (length (filter is_error_record buf))"
  by (induction buf arbitrary: n) (auto simp: is_error_record_def)

text \<open>
  Claim C6. The scan of the log counts the records whose level is \<open>ERROR\<close> or
  \<open>CRITICAL\<close>. A record without a level adds nothing to the count, wherever it stands in
  the buffer. The five levels INFO, ERROR, WARNING, CRITICAL, ERROR give the count 3.
\<close>

theorem error_count_aggregation:
  "count_error_logs 0 buf =
     int (length (filter (\<lambda>log. log ''level'' = Some ''ERROR'' \<or> log ''level'' = Some ''CRITICAL'') buf)) \<and>
   (log ''level'' = None \<longrightarrow>
      count_error_logs 0 (before @ log # after) = count_error_logs 0 (before @ after)) \<and>
   count_error_logs 0
     (map (\<lambda>l. [''level'' \<mapsto> l]) [''INFO'', ''ERROR'', ''WARNING'', ''CRITICAL'', ''ERROR'']) = 3"
proof -
  have "is_error_record =
      (\<lambda>log. log ''level'' = Some ''ERROR'' \<or> log ''level'' = Some ''CRITICAL'')"
    by (simp add: fun_eq_iff is_error_record_def)
  then show ?thesis
    by (simp add: count_error_logs_filter is_error_record_def)
qed

theorem error_count_aggregation_witness:
  "count_error_logs 0 example_log_buffer = 3 \<and>
   count_error_logs 0 (example_log_buffer @ [[''message'' \<mapsto> ''no level'']]) = 3 \<and>
   count_error_logs 0 ([''message'' \<mapsto> ''no level''] # example_log_buffer) = 3"
proof -
  have n: "[''message'' \<mapsto> ''no level''] ''level'' = (None :: string option)"
    by simp
  have "count_error_logs 0 example_log_buffer = 3"
    using error_count_aggregation[of example_log_buffer]
    by (simp add: example_log_buffer_def)
  moreover have "count_error_logs 0 (example_log_buffer @ [[''message'' \<mapsto> ''no level'']]) =
      count_error_logs 0 (example_log_buffer @ [])"
    using error_count_aggregation[of _ "[''message'' \<mapsto> ''no level'']" example_log_buffer "[]"] n
    by blast
  moreover have "count_error_logs 0 ([] @ [''message'' \<mapsto> ''no level''] # example_log_buffer) =
      count_error_logs 0 ([] @ example_log_buffer)"
    using error_count_aggregation[of _ "[''message'' \<mapsto> ''no level'']" "[]" example_log_buffer] n
    by blast
  ultimately show ?thesis by simp
qed

text \<open>
  Claim C8. A record whose level is a string other than \<open>ERROR\<close> and \<open>CRITICAL\<close>, such
  as \<open>error\<close> or \<open>Critical\<close>, adds nothing to the count.
\<close>

theorem error_level_match_exact:
  assumes "log ''level'' = Some l" and "l \<noteq> ''ERROR''" and "l \<noteq> ''CRITICAL''"
  shows "count_error_logs n (before @ log # after) = count_error_logs n (before @ after) \<and>
    count_error_logs 0 [log] = 0"
  using assms by (simp add: count_error_logs_filter is_error_record_def)

theorem error_level_match_exact_witness:
  "count_error_logs 0 [[''level'' \<mapsto> ''error'']] = 0 \<and>
   count_error_logs 0 [[''level'' \<mapsto> ''Critical'']] = 0 \<and>
   count_error_logs 0 ([[''level'' \<mapsto> ''ERROR'']] @ [''level'' \<mapsto> ''critical''] # [[''level'' \<mapsto> ''CRITICAL'']]) =
     count_error_logs 0 ([[''level'' \<mapsto> ''ERROR'']] @ [[''level'' \<mapsto> ''CRITICAL'']])"
  using error_level_match_exact[of "[''level'' \<mapsto> ''error'']" "''error''" 0 "[]" "[]"]
    error_level_match_exact[of "[''level'' \<mapsto> ''Critical'']" "''Critical''" 0 "[]" "[]"]
    error_level_match_exact[of "[''level'' \<mapsto> ''critical'']" "''critical''" 0
      "[[''level'' \<mapsto> ''ERROR'']]" "[[''level'' \<mapsto> ''CRITICAL'']]"]
  by simp

subsection \<open>The endpoints\<close>

lemma prepare_current_url:
  "current_url (prepare_admin_template_data fmt base req accounts logs key path_prefix) =
     get_base_url_from_request base req"
  by (simp add: prepare_admin_template_data_def Let_def)

lemma prepare_api_base_url:
  "api_base_url (prepare_admin_template_data fmt base req accounts logs key path_prefix) =
     (if path_prefix \<noteq> [] then get_base_url_from_request base req @ ''/'' @ rstrip_slash (path_prefix @ ''/'')
      else get_base_url_from_request base req)"
  by (simp add: prepare_admin_template_data_def Let_def)

lemma prepare_api_base_v1:
  "api_base_v1 (prepare_admin_template_data fmt base req accounts logs key path_prefix) =
     get_base_url_from_request base req @ ''/'' @ (if path_prefix \<noteq> [] then path_prefix @ ''/'' else []) @ ''v1''"
  by (simp add: prepare_admin_template_data_def Let_def)

lemma prepare_api_endpoint:
  "api_endpoint (prepare_admin_template_data fmt base req accounts logs key path_prefix) =
     get_base_url_from_request base req @ ''/'' @ (if path_prefix \<noteq> [] then path_prefix @ ''/'' else []) @
     ''v1/chat/completions''"
  by (simp add: prepare_admin_template_data_def Let_def)

text \<open>
  Claim C9. For a path prefix that is empty or does not end in a slash, the versioned
  base is the API base followed by \<open>/v1\<close>, the chat endpoint is the versioned base followed
  by \<open>/chat/completions\<close>, and the API base is the current URL for the empty prefix and the
  current URL, a slash and the prefix otherwise.
\<close>

theorem endpoint_composition:
  assumes "path_prefix = [] \<or> last path_prefix \<noteq> CHR ''/''"
  shows
   "api_base_v1 (prepare_admin_template_data fmt base req accounts logs key path_prefix) =
      api_base_url (prepare_admin_template_data fmt base req accounts logs key path_prefix) @ ''/v1'' \<and>
    api_endpoint (prepare_admin_template_data fmt base req accounts logs key path_prefix) =
      api_base_v1 (prepare_admin_template_data fmt base req accounts logs key path_prefix) @
      ''/chat/completions'' \<and>
    api_base_url (prepare_admin_template_data fmt base req accounts logs key path_prefix) =
      (if path_prefix = []
       then current_url (prepare_admin_template_data fmt base req accounts logs key path_prefix)
       else current_url (prepare_admin_template_data fmt base req accounts logs key path_prefix) @
         ''/'' @ path_prefix) \<and>
    current_url (prepare_admin_template_data fmt base req accounts logs key path_prefix) =
      get_base_url_from_request base req"
  unfolding prepare_current_url prepare_api_base_url prepare_api_base_v1 prepare_api_endpoint
    rstrip_slash_snoc[OF assms]
  by simp

theorem endpoint_composition_witness:
  "api_base_url (prepare_admin_template_data example_formatter [] example_request example_pool
      example_log_buffer ''secret'' ''gw'') = ''https://api.example.com/gw'' \<and>
   api_base_v1 (prepare_admin_template_data example_formatter [] example_request example_pool
      example_log_buffer ''secret'' ''gw'') = ''https://api.example.com/gw/v1'' \<and>
   api_endpoint (prepare_admin_template_data example_formatter [] example_request example_pool
      example_log_buffer ''secret'' ''gw'') = ''https://api.example.com/gw/v1/chat/completions'' \<and>
   api_base_url (prepare_admin_template_data example_formatter [] example_request example_pool
      example_log_buffer ''secret'' []) = ''https://api.example.com'' \<and>
   api_base_v1 (prepare_admin_template_data example_formatter [] example_request example_pool
      example_log_buffer ''secret'' []) = ''https://api.example.com/v1'' \<and>
   api_endpoint (prepare_admin_template_data example_formatter [] example_request example_pool
      example_log_buffer ''secret'' []) = ''https://api.example.com/v1/chat/completions''"
proof -
  have u: "get_base_url_from_request [] example_request = ''https://api.example.com''"
    by (simp add: get_base_url_from_request_def example_request_def format_optional_def)
  have g: "''gw'' = [] \<or> last ''gw'' \<noteq> CHR ''/''" and e: "[] = [] \<or> last [] \<noteq> CHR ''/''"
    by simp_all
  show ?thesis
    using endpoint_composition[OF g, of example_formatter "[]" example_request example_pool
        example_log_buffer "''secret''"]
      endpoint_composition[OF e, of example_formatter "[]" example_request example_pool
        example_log_buffer "''secret''"]
    unfolding u by simp
qed

subsection \<open>The account table\<close>

lemma prepare_accounts_html:
  "accounts_html (prepare_admin_template_data fmt base req accounts logs key path_prefix) =
     accounts_table
       (if build_accounts_rows fmt [] accounts \<noteq> [] then build_accounts_rows fmt [] accounts
        else placeholder_row)"
  unfolding prepare_admin_template_data_def Let_def accounts_table_def placeholder_row_def
  by simp

lemma account_row_nonempty: "account_row fmt am \<noteq> []"
  unfolding account_row_def Let_def by simp

lemma build_accounts_rows_concat:
  "build_accounts_rows fmt acc accounts =
     acc @ concat (map (\<lambda>(k, am). account_row fmt am) accounts)"
  by (induction accounts arbitrary: acc) auto

lemma rows_nonempty:
  "accounts \<noteq> [] \<Longrightarrow> concat (map (\<lambda>(k, am). account_row fmt am) accounts) \<noteq> []"
  by (cases accounts) (auto simp: account_row_nonempty)

text \<open>
  Claim C7. With an empty pool the body of the account table is the one placeholder row;
  with accounts in the pool the body is the rows of the accounts, one for each, in the
  order of the pool. No input makes the computation fail.
\<close>

theorem account_rows_or_placeholder:
  "(accounts = [] \<longrightarrow>
      accounts_html (prepare_admin_template_data fmt base req accounts logs key path_prefix) =
        accounts_table placeholder_row) \<and>
   (accounts \<noteq> [] \<longrightarrow>
      accounts_html (prepare_admin_template_data fmt base req accounts logs key path_prefix) =
        accounts_table (concat (map (\<lambda>(k, am). account_row fmt am) accounts)))"
  unfolding prepare_accounts_html build_accounts_rows_concat
  using rows_nonempty[of accounts fmt] by simp

theorem account_rows_or_placeholder_witness:
  "accounts_html (prepare_admin_template_data example_formatter [] example_request []
      example_log_buffer ''secret'' ''gw'') = accounts_table placeholder_row \<and>
   accounts_html (prepare_admin_template_data example_formatter [] example_request example_pool
      example_log_buffer ''secret'' ''gw'') =
     accounts_table (account_row example_formatter example_cooldown_account @
       account_row example_formatter example_account @
       account_row example_formatter example_expired_account)"
proof -
  have p: "example_pool \<noteq> []"
    by (simp add: example_pool_def)
  have c: "concat (map (\<lambda>(k, am). account_row example_formatter am) example_pool) =
      account_row example_formatter example_cooldown_account @
      account_row example_formatter example_account @
      account_row example_formatter example_expired_account"
    by (simp add: example_pool_def)
  show ?thesis
    using account_rows_or_placeholder[of "[]" example_formatter "[]" example_request
        example_log_buffer "''secret''" "''gw''"]
      account_rows_or_placeholder[of example_pool example_formatter "[]" example_request
        example_log_buffer "''secret''" "''gw''"] p
    unfolding c by blast
qed

end
